theory Spec2Isabelle
  imports Complex_Main "HOL-Library.Word" "HOL-Library.Log_Nat"
begin

section \<open>Hebrew text utilities (Chrome/src/utils/hebrew-text.js)\<close>

text \<open>
  A JavaScript string is a sequence of UTF-16 code units. Every regular expression of the
  modelled code is written without the \<open>u\<close> flag, so it matches code unit by code unit.
\<close>

type_synonym codeunit = "16 word"
type_synonym jsstring = "codeunit list"

text \<open>\<open>HEBREW_WORD_REGEX\<close>, the class of code units U+0590 to U+05FF, one or more times.\<close>

definition isHebrewChar :: "codeunit \<Rightarrow> bool" where
  "isHebrewChar c \<longleftrightarrow> 0x0590 \<le> c \<and> c \<le> 0x05FF"

text \<open>\<open>NIKUD_REGEX\<close>, the class of code units U+0591 to U+05C7.\<close>

definition isNikud :: "codeunit \<Rightarrow> bool" where
  "isNikud c \<longleftrightarrow> 0x0591 \<le> c \<and> c \<le> 0x05C7"

text \<open>
  \<open>normalizeHebrew(word)\<close>: \<open>if (!word) return ''\<close>, then every match of the nikud
  class is replaced by the empty string.
\<close>

definition normalizeHebrew :: "jsstring \<Rightarrow> jsstring" where
  "normalizeHebrew word =
     (if word = [] then [] else filter (\<lambda>c. \<not> isNikud c) word)"

text \<open>
  \<open>text.match(HEBREW_WORD_REGEX)\<close> with a global expression: all the maximal runs of
  Hebrew-block code units, from left to right (\<open>match\<close> starts at index 0 whatever
  \<open>lastIndex\<close> was). No match gives \<open>null\<close>, which every caller turns into \<open>[]\<close>.
\<close>

function matchHebrew :: "jsstring \<Rightarrow> jsstring list" where
  "matchHebrew [] = []"
| "matchHebrew (c # cs) =
     (if isHebrewChar c
      then (c # takeWhile isHebrewChar cs) # matchHebrew (dropWhile isHebrewChar cs)
      else matchHebrew cs)"
  by pat_completeness auto
termination
  by (relation "measure length") (auto simp: le_imp_less_Suc length_dropWhile_le)

text \<open>
  \<open>text.replace(/\[[^\]]*\]/g, '')\<close> and its two siblings: an opening bracket, any code
  units other than the closing bracket, and the closing bracket are removed. An opening
  bracket with no closing bracket after it stays, and so does the rest of the text.
\<close>

function removeBracketed :: "codeunit \<Rightarrow> codeunit \<Rightarrow> jsstring \<Rightarrow> jsstring" where
  "removeBracketed opn cls [] = []"
| "removeBracketed opn cls (c # cs) =
     (if c = opn
      then (case dropWhile (\<lambda>d. d \<noteq> cls) cs of
              [] \<Rightarrow> c # cs
            | _ # rest \<Rightarrow> removeBracketed opn cls rest)
      else c # removeBracketed opn cls cs)"
  by pat_completeness auto
termination
proof (relation "measure (\<lambda>(opn, cls, s). length s)")
  show "wf (measure (\<lambda>(opn, cls, s). length s))"
    by simp
next
  fix opn cls c :: codeunit and cs x21 rest
  assume "dropWhile (\<lambda>d. d \<noteq> cls) cs = x21 # rest"
  then have "Suc (length rest) \<le> length cs"
    using length_dropWhile_le [of "\<lambda>d. d \<noteq> cls" cs] by simp
  then show "((opn, cls, rest), opn, cls, c # cs) \<in> measure (\<lambda>(opn, cls, s). length s)"
    by simp
next
  fix opn cls c :: codeunit and cs
  show "((opn, cls, cs), opn, cls, c # cs) \<in> measure (\<lambda>(opn, cls, s). length s)"
    by simp
qed

text \<open>
  \<open>extractHebrewWords(text, minLength = 1, ignoreBrackets = true)\<close>. The brackets are
  \<open>[ ]\<close>, the full-width \<open>U+FF08 U+FF09\<close> and \<open>( )\<close>, removed in this order.
\<close>

definition extractHebrewWords :: "jsstring \<Rightarrow> nat \<Rightarrow> bool \<Rightarrow> jsstring list" where
  "extractHebrewWords text minLength ignoreBrackets =
     (if text = [] then []
      else
        let text1 = (if ignoreBrackets
                     then removeBracketed 0x28 0x29
                            (removeBracketed 0xFF08 0xFF09 (removeBracketed 0x5B 0x5D text))
                     else text)
        in filter (\<lambda>word. length (normalizeHebrew word) \<ge> minLength) (matchHebrew text1))"

subsection \<open>Word classification\<close>

text \<open>
  The classifiers return one of the strings \<open>'mature'\<close>, \<open>'learning'\<close>, \<open>'known'\<close>,
  \<open>'potentially-known'\<close> and \<open>'unknown'\<close>.
\<close>

datatype wordType = Mature | Learning | Known | PotentiallyKnown | Unknown

text \<open>\<open>s.startsWith(p)\<close> and the prefix letters: vav, lamed, bet, shin.\<close>

definition startsWith :: "jsstring \<Rightarrow> jsstring \<Rightarrow> bool" where
  "startsWith s p \<longleftrightarrow> take (length p) s = p"

definition VAV :: jsstring where "VAV = [0x05D5]"
definition LAMED :: jsstring where "LAMED = [0x05DC]"
definition BET :: jsstring where "BET = [0x05D1]"
definition SHIN :: jsstring where "SHIN = [0x05E9]"

definition prefixes :: "jsstring list" where
  "prefixes = [LAMED, BET, SHIN]"

text \<open>
  The loop \<open>for (const prefix of prefixes)\<close>, the same in the three classifiers:
  \<open>Some PotentiallyKnown\<close> is its early return, \<open>None\<close> is falling through.
\<close>

fun prefixLoop :: "jsstring list \<Rightarrow> jsstring \<Rightarrow> jsstring list \<Rightarrow> jsstring list \<Rightarrow> wordType option" where
  "prefixLoop [] normalizedWord matureWords learningWords = None"
| "prefixLoop (prefix # rest) normalizedWord matureWords learningWords =
     (if startsWith normalizedWord prefix \<and> length normalizedWord > 1
         \<and> (drop 1 normalizedWord \<in> set matureWords \<or> drop 1 normalizedWord \<in> set learningWords)
      then Some PotentiallyKnown
      else prefixLoop rest normalizedWord matureWords learningWords)"

text \<open>\<open>getWordKnownType(normalizedWord, matureWords, learningWords)\<close> of hebrew-text.js.\<close>

definition getWordKnownType :: "jsstring \<Rightarrow> jsstring list \<Rightarrow> jsstring list \<Rightarrow> wordType" where
  "getWordKnownType normalizedWord matureWords learningWords =
     (let afterVav =
            (case prefixLoop prefixes normalizedWord matureWords learningWords of
               Some t \<Rightarrow> t
             | None \<Rightarrow> Unknown)
      in if normalizedWord \<in> set matureWords \<or> normalizedWord \<in> set learningWords then Known
         else if startsWith normalizedWord VAV \<and> length normalizedWord > 1
         then (let withoutVav = drop 1 normalizedWord
               in if withoutVav \<in> set matureWords \<or> withoutVav \<in> set learningWords then Known
                  else afterVav)
         else afterVav)"

definition isWordKnown :: "jsstring \<Rightarrow> jsstring list \<Rightarrow> jsstring list \<Rightarrow> bool" where
  "isWordKnown normalizedWord matureWords learningWords \<longleftrightarrow>
     getWordKnownType normalizedWord matureWords learningWords = Known"

text \<open>
  \<open>getWordType(normalizedWord)\<close> of the content coordinator (unnamed/part_001), which
  reads the module-level arrays \<open>matureWords\<close> and \<open>learningWords\<close>; they are arguments
  here. It does not normalize its argument.
\<close>

definition getWordType_coordinator :: "jsstring \<Rightarrow> jsstring list \<Rightarrow> jsstring list \<Rightarrow> wordType" where
  "getWordType_coordinator normalizedWord matureWords learningWords =
     (let afterVav =
            (case prefixLoop prefixes normalizedWord matureWords learningWords of
               Some t \<Rightarrow> t
             | None \<Rightarrow> Unknown)
      in if normalizedWord \<in> set matureWords then Mature
         else if normalizedWord \<in> set learningWords then Learning
         else if startsWith normalizedWord VAV \<and> length normalizedWord > 1
         then (let withoutVav = drop 1 normalizedWord
               in if withoutVav \<in> set matureWords then Mature
                  else if withoutVav \<in> set learningWords then Learning
                  else afterVav)
         else afterVav)"

text \<open>
  \<open>getWordType(word, matureWords, learningWords)\<close> of
  Firefox/src/highlighting/word-highlighter.js: the same decisions, taken on
  \<open>normalizeHebrew(word)\<close>.
\<close>

definition getWordType :: "jsstring \<Rightarrow> jsstring list \<Rightarrow> jsstring list \<Rightarrow> wordType" where
  "getWordType word matureWords learningWords =
     (let normalized = normalizeHebrew word;
          afterVav =
            (case prefixLoop prefixes normalized matureWords learningWords of
               Some t \<Rightarrow> t
             | None \<Rightarrow> Unknown)
      in if normalized \<in> set matureWords then Mature
         else if normalized \<in> set learningWords then Learning
         else if startsWith normalized VAV \<and> length normalized > 1
         then (let withoutVav = drop 1 normalized
               in if withoutVav \<in> set matureWords then Mature
                  else if withoutVav \<in> set learningWords then Learning
                  else afterVav)
         else afterVav)"

section \<open>Sentence classification\<close>

text \<open>\<open>MIN_SENTENCE_WORDS\<close> and \<open>MIN_WORD_LENGTH\<close> of Chrome/src/utils/constants.js.\<close>

definition MIN_SENTENCE_WORDS :: nat where "MIN_SENTENCE_WORDS = 3"
definition MIN_WORD_LENGTH :: nat where "MIN_WORD_LENGTH = 2"

text \<open>
  A JavaScript \<open>Set\<close> of strings keeps its elements in insertion order, each once: a list
  without duplicates. \<open>s.has(x)\<close> is \<open>x \<in> set s\<close>, \<open>s.size\<close> is \<open>length s\<close>.
\<close>

definition setAdd :: "jsstring list \<Rightarrow> jsstring \<Rightarrow> jsstring list" where
  "setAdd s x = (if x \<in> set s then s else s @ [x])"

text \<open>
  The object \<open>{unknownCount, potentiallyKnownCount}\<close> that \<open>countWordTypes\<close> returns. The
  sentence objects of the sentence highlighter carry the same two properties, and
  \<open>isI1Sentence\<close> and \<open>isPotentiallyI1Sentence\<close> read nothing else.
\<close>

record wordTypeCounts =
  unknownCount :: nat
  potentiallyKnownCount :: nat

text \<open>
  The sentence objects: \<open>s_text\<close>, \<open>s_unknownWords\<close>, \<open>s_start\<close> and \<open>s_end\<close> are the
  properties \<open>text\<close>, \<open>unknownWords\<close>, \<open>start\<close> and \<open>end\<close>.
\<close>

record sentence = wordTypeCounts +
  s_text :: jsstring
  s_unknownWords :: "jsstring list"
  s_start :: nat
  s_end :: nat

subsection \<open>Firefox/src/highlighting/sentence-highlighter.js\<close>

definition isI1Sentence :: "'a wordTypeCounts_scheme \<Rightarrow> bool" where
  "isI1Sentence s \<longleftrightarrow> unknownCount s = 1 \<and> potentiallyKnownCount s = 0"

definition isPotentiallyI1Sentence :: "'a wordTypeCounts_scheme \<Rightarrow> bool" where
  "isPotentiallyI1Sentence s \<longleftrightarrow>
     potentiallyKnownCount s = 1 \<and> (unknownCount s = 0 \<or> unknownCount s = 1)"

text \<open>
  The callback of \<open>hebrewWords.forEach\<close> in \<open>highlightSentences\<close>. Its state is the four
  local variables \<open>uniqueWords\<close>, \<open>unknownCount\<close>, \<open>potentiallyKnownCount\<close> and
  \<open>unknownWordsList\<close>.
\<close>

definition sentenceWordStep ::
  "jsstring list \<Rightarrow> jsstring list \<Rightarrow> jsstring
     \<Rightarrow> jsstring list \<times> nat \<times> nat \<times> jsstring list
     \<Rightarrow> jsstring list \<times> nat \<times> nat \<times> jsstring list" where
  "sentenceWordStep matureWords learningWords word st =
     (case st of (uniqueWords, unknowns, potentials, unknownWordsList) \<Rightarrow>
        let normalized = normalizeHebrew word
        in if normalized \<notin> set uniqueWords
           then (let wordType = getWordKnownType normalized matureWords learningWords
                 in if wordType = Unknown
                    then (setAdd uniqueWords normalized, unknowns + 1, potentials,
                          unknownWordsList @ [word])
                    else if wordType = PotentiallyKnown
                    then (setAdd uniqueWords normalized, unknowns, potentials + 1,
                          unknownWordsList)
                    else (setAdd uniqueWords normalized, unknowns, potentials,
                          unknownWordsList))
           else st)"

text \<open>
  The body of the loop \<open>while ((match = sentenceRegex.exec(text)) !== null)\<close> of
  \<open>highlightSentences\<close>, from \<open>const sentence = match[0].trim()\<close> on: \<open>sentenceText\<close> is
  the trimmed match, \<open>matchIndex\<close> is \<open>match.index\<close> and \<open>matchLength\<close> is
  \<open>match[0].length\<close>. \<open>None\<close> is \<open>continue\<close>; \<open>Some s\<close> is \<open>sentences.push(s)\<close>.
\<close>

definition sentenceOfMatch ::
  "jsstring list \<Rightarrow> jsstring list \<Rightarrow> jsstring \<Rightarrow> nat \<Rightarrow> nat \<Rightarrow> sentence option" where
  "sentenceOfMatch matureWords learningWords sentenceText matchIndex matchLength =
     (if length sentenceText = 0 then None
      else
        let hebrewWords = extractHebrewWords sentenceText 2 False
        in if length hebrewWords = 0 then None
           else if length hebrewWords < MIN_SENTENCE_WORDS then None
           else
             (case fold (sentenceWordStep matureWords learningWords) hebrewWords ([], 0, 0, [])
              of (uniqueWords, unknowns, potentials, unknownWordsList) \<Rightarrow>
                Some \<lparr> unknownCount = unknowns,
                       potentiallyKnownCount = potentials,
                       s_text = sentenceText,
                       s_unknownWords = unknownWordsList,
                       s_start = matchIndex,
                       s_end = matchIndex + matchLength \<rparr>))"

text \<open>
  What \<open>highlightSentences\<close> does with the matches of one element: the sentence objects,
  the two filtered lists, and the two counts it adds to its totals.
\<close>

definition elementSentences ::
  "jsstring list \<Rightarrow> jsstring list \<Rightarrow> (jsstring \<times> nat \<times> nat) list \<Rightarrow> sentence list" where
  "elementSentences matureWords learningWords matches =
     List.map_filter
       (\<lambda>(sentenceText, matchIndex, matchLength).
           sentenceOfMatch matureWords learningWords sentenceText matchIndex matchLength)
       matches"

definition i1SentencesOf :: "sentence list \<Rightarrow> sentence list" where
  "i1SentencesOf sentences = filter isI1Sentence sentences"

definition potentiallyI1SentencesOf :: "sentence list \<Rightarrow> sentence list" where
  "potentiallyI1SentencesOf sentences = filter isPotentiallyI1Sentence sentences"

subsection \<open>Comprehension statistics (unnamed/part_003)\<close>

text \<open>The callback of \<open>hebrewWords.forEach\<close> in \<open>countUnknownWords\<close>, and the function.\<close>

definition countUnknownWordsStep ::
  "jsstring list \<Rightarrow> jsstring list \<Rightarrow> jsstring \<Rightarrow> jsstring list \<times> nat \<Rightarrow> jsstring list \<times> nat" where
  "countUnknownWordsStep matureWords learningWords word st =
     (case st of (uniqueWordsInSentence, unknowns) \<Rightarrow>
        let normalized = normalizeHebrew word
        in if length normalized > 0 \<and> normalized \<notin> set uniqueWordsInSentence
           then (setAdd uniqueWordsInSentence normalized,
                 if \<not> isWordKnown normalized matureWords learningWords
                 then unknowns + 1 else unknowns)
           else st)"

definition countUnknownWords :: "jsstring list \<Rightarrow> jsstring list \<Rightarrow> jsstring list \<Rightarrow> nat" where
  "countUnknownWords hebrewWords matureWords learningWords =
     snd (fold (countUnknownWordsStep matureWords learningWords) hebrewWords ([], 0))"

text \<open>The callback of \<open>hebrewWords.forEach\<close> in \<open>countWordTypes\<close>, and the function.\<close>

definition countWordTypesStep ::
  "jsstring list \<Rightarrow> jsstring list \<Rightarrow> jsstring
     \<Rightarrow> jsstring list \<times> wordTypeCounts \<Rightarrow> jsstring list \<times> wordTypeCounts" where
  "countWordTypesStep matureWords learningWords word st =
     (case st of (uniqueWordsInSentence, counts) \<Rightarrow>
        let normalized = normalizeHebrew word
        in if length normalized > 0 \<and> normalized \<notin> set uniqueWordsInSentence
           then (let type = getWordKnownType normalized matureWords learningWords
                 in (setAdd uniqueWordsInSentence normalized,
                     if type = Unknown
                     then counts\<lparr>unknownCount := unknownCount counts + 1\<rparr>
                     else if type = PotentiallyKnown
                     then counts\<lparr>potentiallyKnownCount := potentiallyKnownCount counts + 1\<rparr>
                     else counts))
           else st)"

definition countWordTypes :: "jsstring list \<Rightarrow> jsstring list \<Rightarrow> jsstring list \<Rightarrow> wordTypeCounts" where
  "countWordTypes hebrewWords matureWords learningWords =
     snd (fold (countWordTypesStep matureWords learningWords) hebrewWords
            ([], \<lparr>unknownCount = 0, potentiallyKnownCount = 0\<rparr>))"

text \<open>\<open>checkIfI1Sentence\<close> and \<open>checkIfPotentiallyI1Sentence\<close>.\<close>

definition checkIfI1Sentence :: "jsstring \<Rightarrow> jsstring list \<Rightarrow> jsstring list \<Rightarrow> bool" where
  "checkIfI1Sentence sentenceText matureWords learningWords =
     (if sentenceText = [] then False
      else
        let hebrewWords =
              filter (\<lambda>word. length (normalizeHebrew word) > 1) (matchHebrew sentenceText)
        in if length hebrewWords < 3 then False
           else countUnknownWords hebrewWords matureWords learningWords = 1)"

definition checkIfPotentiallyI1Sentence :: "jsstring \<Rightarrow> jsstring list \<Rightarrow> jsstring list \<Rightarrow> bool" where
  "checkIfPotentiallyI1Sentence sentenceText matureWords learningWords =
     (if sentenceText = [] then False
      else
        let hebrewWords =
              filter (\<lambda>word. length (normalizeHebrew word) > 1) (matchHebrew sentenceText)
        in if length hebrewWords < 3 then False
           else
             (let counts = countWordTypes hebrewWords matureWords learningWords
              in potentiallyKnownCount counts = 1
                   \<and> (unknownCount counts = 0 \<or> unknownCount counts = 1)))"

subsection \<open>Number arithmetic of the percentage\<close>

text \<open>
  \<open>Math.round((knownCount / totalWords) * 100)\<close> works on Numbers, IEEE 754 binary64
  values. A finite Number is a rational, and \<open>/\<close> and \<open>*\<close> return the exact result
  rounded to the nearest Number, ties to the even significand. \<open>toDouble\<close> is that
  rounding for values whose magnitude lies in the normal range (between \<open>2^-1022\<close> and
  \<open>2^1024\<close>), where a Number has a significand of 53 bits; a quotient of two counts
  below \<open>2^53\<close>, and one hundred times it, are zero or in this range.
\<close>

definition pow2 :: "int \<Rightarrow> rat" where
  "pow2 e = (if 0 \<le> e then 2 ^ nat e else 1 / 2 ^ nat (- e))"

text \<open>The exponent \<open>e\<close> with \<open>2^e \<le> q < 2^(e+1)\<close>, for \<open>q > 0\<close>.\<close>

definition binaryExponent :: "rat \<Rightarrow> int" where
  "binaryExponent q =
     (case quotient_of q of (a, b) \<Rightarrow>
        let d = bitlen a - bitlen b
        in if pow2 d \<le> q then d else d - 1)"

definition roundHalfEven :: "rat \<Rightarrow> int" where
  "roundHalfEven x =
     (let f = \<lfloor>x\<rfloor>; r = x - of_int f
      in if r < 1 / 2 then f
         else if 1 / 2 < r then f + 1
         else if even f then f else f + 1)"

definition toDouble :: "rat \<Rightarrow> rat" where
  "toDouble q =
     (if q = 0 then 0
      else
        let ulp = pow2 (binaryExponent \<bar>q\<bar> - 52)
        in sgn q * of_int (roundHalfEven (\<bar>q\<bar> / ulp)) * ulp)"

text \<open>\<open>x / y\<close> for \<open>y\<close> other than zero, and \<open>x * y\<close>.\<close>

definition jsDivide :: "rat \<Rightarrow> rat \<Rightarrow> rat" where
  "jsDivide x y = toDouble (x / y)"

definition jsTimes :: "rat \<Rightarrow> rat \<Rightarrow> rat" where
  "jsTimes x y = toDouble (x * y)"

text \<open>\<open>Math.round(x)\<close>: the nearest integer, a tie going up.\<close>

definition mathRound :: "rat \<Rightarrow> int" where
  "mathRound x = \<lfloor>x + 1 / 2\<rfloor>"

subsection \<open>calculateComprehensionStats\<close>

record comprehensionStats =
  total :: nat
  known :: nat
  potentiallyKnown :: nat
  percentage :: int
  i1Sentences :: nat
  potentiallyI1Sentences :: nat

text \<open>
  The answer to \<open>chrome.runtime.sendMessage({ action: 'getWords' })\<close>: an object whose
  properties \<open>matureWords\<close> and \<open>learningWords\<close> are arrays or are missing.
\<close>

record wordsData =
  wd_matureWords :: "jsstring list option"
  wd_learningWords :: "jsstring list option"

text \<open>
  What can go wrong inside the \<open>try\<close> block: the awaited promise rejects, or it resolves
  to \<open>undefined\<close> and reading a property of it throws a \<open>TypeError\<close>.
\<close>

datatype jsError = Rejection | TypeError

text \<open>
  The callback of \<open>subtitles.forEach\<close>. Its state is \<open>uniqueWords\<close>,
  \<open>i1SentenceCount\<close> and \<open>potentiallyI1SentenceCount\<close>; \<open>subText\<close> is \<open>sub.text\<close>.
\<close>

definition addUniqueWords :: "jsstring list \<Rightarrow> jsstring list \<Rightarrow> jsstring list" where
  "addUniqueWords hebrewWords uniqueWords =
     fold (\<lambda>word u. let normalized = normalizeHebrew word
                     in if length normalized > 0 then setAdd u normalized else u)
          hebrewWords uniqueWords"

definition subtitleStep ::
  "jsstring list \<Rightarrow> jsstring list \<Rightarrow> jsstring
     \<Rightarrow> jsstring list \<times> nat \<times> nat \<Rightarrow> jsstring list \<times> nat \<times> nat" where
  "subtitleStep matureWords learningWords subText st =
     (case st of (uniqueWords, i1SentenceCount, potentiallyI1SentenceCount) \<Rightarrow>
        let hebrewWords = extractHebrewWords subText 2 False;
            uniqueWords' = addUniqueWords hebrewWords uniqueWords
        in if length hebrewWords \<ge> 3
           then (let counts = countWordTypes hebrewWords matureWords learningWords
                 in if unknownCount counts = 1 \<and> potentiallyKnownCount counts = 0
                    then (uniqueWords', i1SentenceCount + 1, potentiallyI1SentenceCount)
                    else if potentiallyKnownCount counts = 1
                            \<and> (unknownCount counts = 0 \<or> unknownCount counts = 1)
                    then (uniqueWords', i1SentenceCount, potentiallyI1SentenceCount + 1)
                    else (uniqueWords', i1SentenceCount, potentiallyI1SentenceCount))
           else (uniqueWords', i1SentenceCount, potentiallyI1SentenceCount))"

text \<open>The callback of \<open>uniqueWords.forEach\<close>: \<open>knownCount\<close> and \<open>potentiallyKnownCount\<close>.\<close>

definition knownStep :: "jsstring list \<Rightarrow> jsstring list \<Rightarrow> jsstring \<Rightarrow> nat \<times> nat \<Rightarrow> nat \<times> nat" where
  "knownStep matureWords learningWords word st =
     (case st of (knownCount, potentials) \<Rightarrow>
        let type = getWordKnownType word matureWords learningWords
        in if type = Known then (knownCount + 1, potentials)
           else if type = PotentiallyKnown then (knownCount, potentials + 1)
           else st)"

definition percentageOf :: "nat \<Rightarrow> nat \<Rightarrow> int" where
  "percentageOf knownCount totalWords =
     (if totalWords > 0
      then mathRound (jsTimes (jsDivide (of_nat knownCount) (of_nat totalWords)) 100)
      else 0)"

definition zeroStats :: comprehensionStats where
  "zeroStats = \<lparr> total = 0, known = 0, potentiallyKnown = 0, percentage = 0,
                 i1Sentences = 0, potentiallyI1Sentences = 0 \<rparr>"

text \<open>
  The \<open>try\<close> block. \<open>fetched\<close> is the outcome of the awaited message: \<open>Inl e\<close> when the
  promise rejects, \<open>Inr None\<close> when it resolves to \<open>undefined\<close>, \<open>Inr (Some d)\<close> when it
  resolves to the object \<open>d\<close>. \<open>subtitles\<close> holds the \<open>text\<close> of each subtitle object,
  the only property read.
\<close>

definition tryComprehensionStats ::
  "jsError + wordsData option \<Rightarrow> jsstring list \<Rightarrow> jsError + comprehensionStats" where
  "tryComprehensionStats fetched subtitles =
     (case fetched of
        Inl e \<Rightarrow> Inl e
      | Inr None \<Rightarrow> Inl TypeError
      | Inr (Some d) \<Rightarrow>
          let matureWords = (case wd_matureWords d of Some ws \<Rightarrow> ws | None \<Rightarrow> []);
              learningWords = (case wd_learningWords d of Some ws \<Rightarrow> ws | None \<Rightarrow> [])
          in (case fold (subtitleStep matureWords learningWords) subtitles ([], 0, 0)
              of (uniqueWords, i1SentenceCount, potentiallyI1SentenceCount) \<Rightarrow>
                (case fold (knownStep matureWords learningWords) uniqueWords (0, 0)
                 of (knownCount, potentials) \<Rightarrow>
                   let totalWords = length uniqueWords
                   in Inr \<lparr> total = totalWords,
                            known = knownCount,
                            potentiallyKnown = potentials,
                            percentage = percentageOf knownCount totalWords,
                            i1Sentences = i1SentenceCount,
                            potentiallyI1Sentences = potentiallyI1SentenceCount \<rparr>)))"

text \<open>
  \<open>calculateComprehensionStats(subtitles)\<close>: the \<open>catch\<close> clause turns every error of the
  block into the zeroed object, so the promise it returns always resolves.
\<close>

definition calculateComprehensionStats ::
  "jsError + wordsData option \<Rightarrow> jsstring list \<Rightarrow> comprehensionStats" where
  "calculateComprehensionStats fetched subtitles =
     (case tryComprehensionStats fetched subtitles of
        Inl e \<Rightarrow> zeroStats
      | Inr stats \<Rightarrow> stats)"

section \<open>Notions of the specification\<close>

text \<open>A word is already normalized when it carries no diacritic.\<close>

definition diacriticFree :: "jsstring \<Rightarrow> bool" where
  "diacriticFree w \<longleftrightarrow> (\<forall>c \<in> set w. \<not> isNikud c)"

text \<open>
  The extracted Hebrew tokens of a sentence: the Hebrew runs whose normalized length
  exceeds one. Its unique normalized tokens, and how many of them \<open>getWordKnownType\<close>
  gives the type \<open>t\<close>: with \<open>t = Unknown\<close> the specification's \<open>unknownCount\<close>, with
  \<open>t = PotentiallyKnown\<close> its \<open>potentiallyKnownCount\<close>.
\<close>

definition hebrewTokens :: "jsstring \<Rightarrow> jsstring list" where
  "hebrewTokens sentenceText =
     filter (\<lambda>word. length (normalizeHebrew word) > 1) (matchHebrew sentenceText)"

definition uniqueNormalizedTokens :: "jsstring \<Rightarrow> jsstring list" where
  "uniqueNormalizedTokens sentenceText = remdups (map normalizeHebrew (hebrewTokens sentenceText))"

definition typeCount :: "wordType \<Rightarrow> jsstring \<Rightarrow> jsstring list \<Rightarrow> jsstring list \<Rightarrow> nat" where
  "typeCount t sentenceText m l =
     length (filter (\<lambda>n. getWordKnownType n m l = t) (uniqueNormalizedTokens sentenceText))"


section \<open>Normalization\<close>

lemma normalizeHebrew_filter: "normalizeHebrew w = filter (\<lambda>c. \<not> isNikud c) w"
  by (simp add: normalizeHebrew_def)

lemma diacriticFree_normalizeHebrew: "diacriticFree (normalizeHebrew w)"
  by (simp add: diacriticFree_def normalizeHebrew_filter)

lemma diacriticFree_iff: "diacriticFree w \<longleftrightarrow> normalizeHebrew w = w"
  by (auto simp: diacriticFree_def normalizeHebrew_filter filter_id_conv)

lemma diacriticFree_drop: "diacriticFree w \<Longrightarrow> diacriticFree (drop n w)"
  by (auto simp: diacriticFree_def dest: in_set_dropD)

text \<open>
  Claim C9. \<open>normalizeHebrew\<close> (the specification's \<open>stripDiacritics\<close>) is idempotent:
  stripping the diacritics of any string twice gives what stripping them once gives.
\<close>

theorem C9_normalizeHebrew_idempotent:
  "normalizeHebrew (normalizeHebrew x) = normalizeHebrew x"
  by (simp add: normalizeHebrew_filter)

theorem C9_normalizeHebrew_idempotent_witness:
  "normalizeHebrew (normalizeHebrew [0x05E9, 0x05B8, 0x05DC, 0x05D5, 0x05B9, 0x05DD])
     = [0x05E9, 0x05DC, 0x05D5, 0x05DD]"
  using C9_normalizeHebrew_idempotent [of "[0x05E9, 0x05B8, 0x05DC, 0x05D5, 0x05B9, 0x05DD]"]
  by (simp add: normalizeHebrew_def isNikud_def)

section \<open>The word classifiers\<close>

lemma prefixLoop_result: "prefixLoop ps w m l = Some t \<Longrightarrow> t = PotentiallyKnown"
  by (induction ps) (auto split: if_splits)

lemma prefixLoop_Some_iff:
  "prefixLoop ps w m l = Some PotentiallyKnown \<longleftrightarrow>
     (\<exists>p \<in> set ps. startsWith w p) \<and> length w > 1 \<and> (drop 1 w \<in> set m \<or> drop 1 w \<in> set l)"
  by (induction ps) auto

lemma afterVav_cases:
  "(case prefixLoop ps w m l of Some t \<Rightarrow> t | None \<Rightarrow> Unknown) = PotentiallyKnown
     \<or> (case prefixLoop ps w m l of Some t \<Rightarrow> t | None \<Rightarrow> Unknown) = Unknown"
  by (auto split: option.splits dest: prefixLoop_result)

lemma getWordType_range:
  "getWordType w m l \<in> {Mature, Learning, PotentiallyKnown, Unknown}"
  "getWordType_coordinator w m l \<in> {Mature, Learning, PotentiallyKnown, Unknown}"
  using afterVav_cases [of prefixes "normalizeHebrew w" m l] afterVav_cases [of prefixes w m l]
  by (auto simp: getWordType_def getWordType_coordinator_def Let_def)

text \<open>
  Claim C2. Take a token whose normalized form is in neither vocabulary array, begins
  with vav and is longer than one code unit. If the form without the vav is in the
  mature array the classifier answers \<open>mature\<close>; if it is in the learning array only,
  \<open>learning\<close>. The vav rule is decided before the loop over the other prefixes is
  reached, so the answer is never \<open>potentially-known\<close>. This holds for \<open>getWordType\<close> of
  the word highlighter and for \<open>getWordType\<close> of the content coordinator.
\<close>

theorem C2_vav_rule_first:
  assumes "normalizeHebrew token \<notin> set m" and "normalizeHebrew token \<notin> set l"
    and "startsWith (normalizeHebrew token) VAV" and "length (normalizeHebrew token) > 1"
  shows "(drop 1 (normalizeHebrew token) \<in> set m \<longrightarrow> getWordType token m l = Mature)
       \<and> (drop 1 (normalizeHebrew token) \<notin> set m \<and> drop 1 (normalizeHebrew token) \<in> set l
            \<longrightarrow> getWordType token m l = Learning)
       \<and> (drop 1 (normalizeHebrew token) \<in> set m
            \<longrightarrow> getWordType_coordinator (normalizeHebrew token) m l = Mature)
       \<and> (drop 1 (normalizeHebrew token) \<notin> set m \<and> drop 1 (normalizeHebrew token) \<in> set l
            \<longrightarrow> getWordType_coordinator (normalizeHebrew token) m l = Learning)"
  using assms by (simp add: getWordType_def getWordType_coordinator_def Let_def)

text \<open>
  The specification's example: the token vav-samekh-pe-resh with samekh-pe-resh in the
  mature array is \<open>mature\<close>; with a tsere on the samekh and the root in the learning
  array only, it is \<open>learning\<close>.
\<close>

theorem C2_vav_rule_first_witness:
  "getWordType [0x05D5, 0x05E1, 0x05E4, 0x05E8] [[0x05E1, 0x05E4, 0x05E8]] [] = Mature
   \<and> getWordType [0x05D5, 0x05E1, 0x05B5, 0x05E4, 0x05E8] [] [[0x05E1, 0x05E4, 0x05E8]] = Learning"
  using C2_vav_rule_first [of "[0x05D5, 0x05E1, 0x05E4, 0x05E8]" "[[0x05E1, 0x05E4, 0x05E8]]" "[]"]
    C2_vav_rule_first [of "[0x05D5, 0x05E1, 0x05B5, 0x05E4, 0x05E8]" "[]" "[[0x05E1, 0x05E4, 0x05E8]]"]
  by (simp add: normalizeHebrew_def isNikud_def startsWith_def VAV_def)

text \<open>
  Claim C3. Take a token whose normalized form is in neither vocabulary array and is not
  matched by the vav rule. If it begins with lamed, bet or shin, is longer than one code
  unit, and without its first code unit is in either array, the classifier answers
  \<open>potentially-known\<close>, hence neither \<open>mature\<close> nor \<open>learning\<close> nor \<open>known\<close>. This holds
  for the two \<open>getWordType\<close> and for \<open>getWordKnownType\<close>.
\<close>

theorem C3_prefix_rule_potentially_known:
  assumes "normalizeHebrew token \<notin> set m" and "normalizeHebrew token \<notin> set l"
    and "\<not> (startsWith (normalizeHebrew token) VAV \<and> length (normalizeHebrew token) > 1
            \<and> (drop 1 (normalizeHebrew token) \<in> set m \<or> drop 1 (normalizeHebrew token) \<in> set l))"
    and "startsWith (normalizeHebrew token) LAMED \<or> startsWith (normalizeHebrew token) BET
           \<or> startsWith (normalizeHebrew token) SHIN"
    and "length (normalizeHebrew token) > 1"
    and "drop 1 (normalizeHebrew token) \<in> set m \<or> drop 1 (normalizeHebrew token) \<in> set l"
  shows "getWordType token m l = PotentiallyKnown
       \<and> getWordKnownType (normalizeHebrew token) m l = PotentiallyKnown
       \<and> getWordType_coordinator (normalizeHebrew token) m l = PotentiallyKnown"
proof -
  let ?n = "normalizeHebrew token"
  have "prefixLoop prefixes ?n m l = Some PotentiallyKnown"
    using assms(4-6) by (auto simp: prefixLoop_Some_iff prefixes_def)
  then show ?thesis
    using assms(1-3,5)
    by (auto simp: getWordType_def getWordKnownType_def getWordType_coordinator_def Let_def)
qed

text \<open>The specification's example: bet-bet-yod-tav with bet-yod-tav in the mature array.\<close>

theorem C3_prefix_rule_potentially_known_witness:
  "getWordType [0x05D1, 0x05D1, 0x05D9, 0x05EA] [[0x05D1, 0x05D9, 0x05EA]] [] = PotentiallyKnown
   \<and> getWordKnownType [0x05D1, 0x05D1, 0x05D9, 0x05EA] [[0x05D1, 0x05D9, 0x05EA]] []
       = PotentiallyKnown"
  using C3_prefix_rule_potentially_known
          [of "[0x05D1, 0x05D1, 0x05D9, 0x05EA]" "[[0x05D1, 0x05D9, 0x05EA]]" "[]"]
  by (simp add: normalizeHebrew_def isNikud_def startsWith_def VAV_def LAMED_def BET_def SHIN_def)

text \<open>
  Claim C10. On an already-normalized word and any two vocabulary arrays the classifiers
  agree up to collapsing: \<open>getWordKnownType\<close> answers \<open>known\<close> exactly when \<open>getWordType\<close>
  answers \<open>mature\<close> or \<open>learning\<close>, \<open>potentially-known\<close> exactly when \<open>getWordType\<close>
  does, and \<open>unknown\<close> exactly when \<open>getWordType\<close> does; for \<open>getWordType\<close> of the word
  highlighter and for \<open>getWordType\<close> of the content coordinator.
\<close>

theorem C10_classifiers_agree:
  assumes "diacriticFree w"
  shows "(getWordKnownType w m l = Known
            \<longleftrightarrow> getWordType w m l = Mature \<or> getWordType w m l = Learning)
       \<and> (getWordKnownType w m l = PotentiallyKnown \<longleftrightarrow> getWordType w m l = PotentiallyKnown)
       \<and> (getWordKnownType w m l = Unknown \<longleftrightarrow> getWordType w m l = Unknown)
       \<and> (getWordKnownType w m l = Known
            \<longleftrightarrow> getWordType_coordinator w m l = Mature \<or> getWordType_coordinator w m l = Learning)
       \<and> (getWordKnownType w m l = PotentiallyKnown
            \<longleftrightarrow> getWordType_coordinator w m l = PotentiallyKnown)
       \<and> (getWordKnownType w m l = Unknown \<longleftrightarrow> getWordType_coordinator w m l = Unknown)"
proof -
  have n: "normalizeHebrew w = w"
    using assms by (simp add: diacriticFree_iff)
  show ?thesis
    using afterVav_cases [of prefixes w m l]
    by (auto simp: getWordType_def getWordKnownType_def getWordType_coordinator_def Let_def n)
qed

theorem C10_classifiers_agree_witness:
  "diacriticFree [0x05D5, 0x05E1, 0x05E4, 0x05E8]
   \<and> getWordType [0x05D5, 0x05E1, 0x05E4, 0x05E8] [] [[0x05E1, 0x05E4, 0x05E8]] = Learning
   \<and> getWordKnownType [0x05D5, 0x05E1, 0x05E4, 0x05E8] [] [[0x05E1, 0x05E4, 0x05E8]] = Known"
  using C10_classifiers_agree [of "[0x05D5, 0x05E1, 0x05E4, 0x05E8]" "[]" "[[0x05E1, 0x05E4, 0x05E8]]"]
  by (simp add: diacriticFree_def isNikud_def getWordType_def normalizeHebrew_def
      startsWith_def VAV_def)

subsection \<open>Diacritics in the vocabulary\<close>

lemma prefixLoop_filter:
  assumes "diacriticFree w"
  shows "prefixLoop ps w (filter diacriticFree m) (filter diacriticFree l) = prefixLoop ps w m l"
  using diacriticFree_drop [OF assms, of 1] by (induction ps) auto

lemma getWordKnownType_filter:
  assumes "diacriticFree w"
  shows "getWordKnownType w (filter diacriticFree m) (filter diacriticFree l)
           = getWordKnownType w m l"
  using assms diacriticFree_drop [OF assms, of 1]
  by (simp add: getWordKnownType_def prefixLoop_filter Let_def)

lemma getWordType_filter:
  "getWordType token (filter diacriticFree m) (filter diacriticFree l) = getWordType token m l"
  using diacriticFree_normalizeHebrew [of token]
    diacriticFree_drop [OF diacriticFree_normalizeHebrew, of 1 token]
  by (simp add: getWordType_def prefixLoop_filter Let_def)

lemma map_normalizeHebrew_id:
  "\<forall>v \<in> set vs. diacriticFree v \<Longrightarrow> map normalizeHebrew vs = vs"
  by (induction vs) (auto simp: diacriticFree_iff)

text \<open>
  Claim C4, as stated: the classification of a token is the same over vocabulary arrays
  whose entries carry diacritics and over the same arrays with the diacritics stripped.
  It fails: the classifiers compare the normalized token with the entries as they are.
  The token shin-lamed-vav-mem is \<open>unknown\<close> when the mature array holds the pointed
  entry (shin, qamats, lamed, vav, holam, mem) and \<open>mature\<close> when it holds the stripped
  one; \<open>getWordKnownType\<close> answers \<open>unknown\<close> and \<open>known\<close>.
\<close>

theorem C4_vocabulary_not_normalized_counterexample:
  "getWordType [0x05E9, 0x05DC, 0x05D5, 0x05DD]
       [[0x05E9, 0x05B8, 0x05DC, 0x05D5, 0x05B9, 0x05DD]] []
     \<noteq> getWordType [0x05E9, 0x05DC, 0x05D5, 0x05DD]
         (map normalizeHebrew [[0x05E9, 0x05B8, 0x05DC, 0x05D5, 0x05B9, 0x05DD]])
         (map normalizeHebrew [])
   \<and> getWordKnownType [0x05E9, 0x05DC, 0x05D5, 0x05DD]
       [[0x05E9, 0x05B8, 0x05DC, 0x05D5, 0x05B9, 0x05DD]] []
     \<noteq> getWordKnownType [0x05E9, 0x05DC, 0x05D5, 0x05DD]
         (map normalizeHebrew [[0x05E9, 0x05B8, 0x05DC, 0x05D5, 0x05B9, 0x05DD]])
         (map normalizeHebrew [])"
  by (simp add: getWordType_def getWordKnownType_def normalizeHebrew_def isNikud_def
      startsWith_def VAV_def prefixes_def LAMED_def BET_def SHIN_def)

text \<open>
  Claim C4, amended. The classifier normalizes the token, not the vocabulary:
  \<open>getWordType\<close> gives a token and its stripped form the same classification; the
  entries are compared as they are, so an entry that carries a diacritic matches nothing
  and removing such entries changes no classification (for \<open>getWordKnownType\<close>, which
  leaves normalizing to its caller, on a diacritic-free word); and over arrays whose
  entries are all diacritic-free, stripping the entries changes nothing.
\<close>

theorem C4_classifier_normalizes_token_only:
  "getWordType (normalizeHebrew token) m l = getWordType token m l
   \<and> getWordType token (filter diacriticFree m) (filter diacriticFree l) = getWordType token m l
   \<and> (diacriticFree w \<longrightarrow>
        getWordKnownType w (filter diacriticFree m) (filter diacriticFree l)
          = getWordKnownType w m l)
   \<and> ((\<forall>v \<in> set m \<union> set l. diacriticFree v) \<longrightarrow>
        getWordType token (map normalizeHebrew m) (map normalizeHebrew l)
          = getWordType token m l)"
proof -
  have "getWordType (normalizeHebrew token) m l = getWordType token m l"
    by (simp add: getWordType_def normalizeHebrew_filter)
  moreover have "(\<forall>v \<in> set m \<union> set l. diacriticFree v) \<longrightarrow>
        getWordType token (map normalizeHebrew m) (map normalizeHebrew l)
          = getWordType token m l"
    by (simp add: map_normalizeHebrew_id)
  ultimately show ?thesis
    by (simp add: getWordType_filter getWordKnownType_filter)
qed

theorem C4_classifier_normalizes_token_only_witness:
  "getWordType [0x05E9, 0x05B8, 0x05DC, 0x05D5, 0x05B9, 0x05DD] [[0x05E9, 0x05DC, 0x05D5, 0x05DD]] []
     = getWordType (normalizeHebrew [0x05E9, 0x05B8, 0x05DC, 0x05D5, 0x05B9, 0x05DD])
         [[0x05E9, 0x05DC, 0x05D5, 0x05DD]] []
   \<and> diacriticFree [0x05E9, 0x05DC, 0x05D5, 0x05DD]
   \<and> getWordKnownType [0x05E9, 0x05DC, 0x05D5, 0x05DD]
        (filter diacriticFree [[0x05E9, 0x05DC, 0x05D5, 0x05DD]]) (filter diacriticFree [])
       = getWordKnownType [0x05E9, 0x05DC, 0x05D5, 0x05DD] [[0x05E9, 0x05DC, 0x05D5, 0x05DD]] []
   \<and> getWordType [0x05E9, 0x05B8, 0x05DC, 0x05D5, 0x05B9, 0x05DD]
        (map normalizeHebrew [[0x05E9, 0x05DC, 0x05D5, 0x05DD]]) (map normalizeHebrew [])
       = getWordType [0x05E9, 0x05B8, 0x05DC, 0x05D5, 0x05B9, 0x05DD]
           [[0x05E9, 0x05DC, 0x05D5, 0x05DD]] []"
  using C4_classifier_normalizes_token_only
    [of "[0x05E9, 0x05B8, 0x05DC, 0x05D5, 0x05B9, 0x05DD]" "[[0x05E9, 0x05DC, 0x05D5, 0x05DD]]" "[]"
        "[0x05E9, 0x05DC, 0x05D5, 0x05DD]"]
  by (simp add: diacriticFree_def isNikud_def)

section \<open>Sentences\<close>

text \<open>
  Claim C5. Whatever the two counts of a sentence object are, \<open>isI1Sentence\<close> and
  \<open>isPotentiallyI1Sentence\<close> do not hold together.
\<close>

theorem C5_i1_exclusive: "\<not> (isI1Sentence s \<and> isPotentiallyI1Sentence s)"
  by (simp add: isI1Sentence_def isPotentiallyI1Sentence_def)

theorem C5_i1_exclusive_witness:
  "isI1Sentence \<lparr>unknownCount = 1, potentiallyKnownCount = 0\<rparr>
   \<and> \<not> isPotentiallyI1Sentence \<lparr>unknownCount = 1, potentiallyKnownCount = 0\<rparr>"
  using C5_i1_exclusive [of "\<lparr>unknownCount = 1, potentiallyKnownCount = 0\<rparr>"]
  by (simp add: isI1Sentence_def)

section \<open>Counting over the unique normalized tokens\<close>

lemma extractHebrewWords_tokens: "extractHebrewWords s 2 False = hebrewTokens s"
proof -
  have "(\<lambda>word. 2 \<le> length (normalizeHebrew word)) = (\<lambda>word. 1 < length (normalizeHebrew word))"
    by auto
  then show ?thesis
    by (simp add: extractHebrewWords_def hebrewTokens_def)
qed

lemma hebrewTokens_nonempty: "w \<in> set (hebrewTokens s) \<Longrightarrow> length (normalizeHebrew w) > 0"
  by (auto simp: hebrewTokens_def)

lemma card_seen_step:
  assumes "finite A" and "n \<notin> S"
  shows "card {x \<in> insert n A - S. P x}
           = (if P n then 1 else 0) + card {x \<in> A - insert n S. P x}"
proof -
  let ?B = "{x \<in> A - insert n S. P x}"
  have fin: "finite ?B" using assms(1) by simp
  have notin: "n \<notin> ?B" by simp
  show ?thesis
  proof (cases "P n")
    case True
    then have "{x \<in> insert n A - S. P x} = insert n ?B"
      using assms(2) by auto
    then show ?thesis using True fin notin by simp
  next
    case False
    then have "{x \<in> insert n A - S. P x} = ?B"
      by auto
    then show ?thesis using False by simp
  qed
qed

text \<open>
  The loops over the words of a sentence share one shape: a word whose normalized form
  was seen leaves the counter alone, a new one is recorded and counted when it has the
  property \<open>P\<close>. Such a loop counts the new normalized forms with \<open>P\<close>, each once.
\<close>

lemma fold_seen_count:
  fixes step :: "jsstring \<Rightarrow> 's \<Rightarrow> 's" and seenOf :: "'s \<Rightarrow> jsstring list" and cnt :: "'s \<Rightarrow> nat"
  assumes old: "\<And>w s. w \<in> set ws \<Longrightarrow> normalizeHebrew w \<in> set (seenOf s)
                  \<Longrightarrow> set (seenOf (step w s)) = set (seenOf s) \<and> cnt (step w s) = cnt s"
    and new: "\<And>w s. w \<in> set ws \<Longrightarrow> normalizeHebrew w \<notin> set (seenOf s)
                  \<Longrightarrow> set (seenOf (step w s)) = insert (normalizeHebrew w) (set (seenOf s))
                      \<and> cnt (step w s) = cnt s + (if P (normalizeHebrew w) then 1 else 0)"
  shows "cnt (fold step ws s) = cnt s + card {n \<in> normalizeHebrew ` set ws - set (seenOf s). P n}
       \<and> set (seenOf (fold step ws s)) = set (seenOf s) \<union> normalizeHebrew ` set ws"
  using old new
proof (induction ws arbitrary: s)
  case Nil
  then show ?case by simp
next
  case (Cons w ws)
  let ?n = "normalizeHebrew w"
  let ?s1 = "step w s"
  have IH: "cnt (fold step ws ?s1)
              = cnt ?s1 + card {n \<in> normalizeHebrew ` set ws - set (seenOf ?s1). P n}
          \<and> set (seenOf (fold step ws ?s1)) = set (seenOf ?s1) \<union> normalizeHebrew ` set ws"
    by (rule Cons.IH) (simp_all add: Cons.prems)
  show ?case
  proof (cases "?n \<in> set (seenOf s)")
    case True
    then have s1: "set (seenOf ?s1) = set (seenOf s)" "cnt ?s1 = cnt s"
      using Cons.prems(1) [of w s] by simp_all
    have "{n \<in> normalizeHebrew ` set (w # ws) - set (seenOf s). P n}
            = {n \<in> normalizeHebrew ` set ws - set (seenOf s). P n}"
      using True by auto
    then show ?thesis
      using IH s1 True by auto
  next
    case False
    then have s1: "set (seenOf ?s1) = insert ?n (set (seenOf s))"
        "cnt ?s1 = cnt s + (if P ?n then 1 else 0)"
      using Cons.prems(2) [of w s] by simp_all
    have "card {x \<in> insert ?n (normalizeHebrew ` set ws) - set (seenOf s). P x}
            = (if P ?n then 1 else 0)
                + card {x \<in> normalizeHebrew ` set ws - insert ?n (set (seenOf s)). P x}"
      by (rule card_seen_step) (simp_all add: False)
    then show ?thesis
      using IH s1 by auto
  qed
qed

lemma count_remdups:
  "length (filter P (remdups xs)) = card {x \<in> set xs. P x}"
proof -
  have "distinct (filter P (remdups xs))"
    by simp
  then have "card (set (filter P (remdups xs))) = length (filter P (remdups xs))"
    by (rule distinct_card)
  moreover have "set (filter P (remdups xs)) = {x \<in> set xs. P x}"
    by auto
  ultimately show ?thesis by simp
qed

lemma typeCount_card:
  "typeCount t s m l
     = card {n \<in> normalizeHebrew ` set (hebrewTokens s). getWordKnownType n m l = t}"
  by (simp add: typeCount_def uniqueNormalizedTokens_def count_remdups)

lemma sentenceWordStep_unknowns:
  "fst (snd (fold (sentenceWordStep m l) ws s))
     = fst (snd s)
       + card {n \<in> normalizeHebrew ` set ws - set (fst s). getWordKnownType n m l = Unknown}"
proof -
  have "fst (snd (fold (sentenceWordStep m l) ws s))
          = fst (snd s)
            + card {n \<in> normalizeHebrew ` set ws - set (fst s). getWordKnownType n m l = Unknown}
        \<and> set (fst (fold (sentenceWordStep m l) ws s)) = set (fst s) \<union> normalizeHebrew ` set ws"
    by (rule fold_seen_count)
       (auto simp: sentenceWordStep_def setAdd_def Let_def split: prod.splits)
  then show ?thesis by simp
qed

lemma sentenceWordStep_potentials:
  "fst (snd (snd (fold (sentenceWordStep m l) ws s)))
     = fst (snd (snd s))
       + card {n \<in> normalizeHebrew ` set ws - set (fst s).
                 getWordKnownType n m l = PotentiallyKnown}"
proof -
  have "fst (snd (snd (fold (sentenceWordStep m l) ws s)))
          = fst (snd (snd s))
            + card {n \<in> normalizeHebrew ` set ws - set (fst s).
                      getWordKnownType n m l = PotentiallyKnown}
        \<and> set (fst (fold (sentenceWordStep m l) ws s)) = set (fst s) \<union> normalizeHebrew ` set ws"
    by (rule fold_seen_count)
       (auto simp: sentenceWordStep_def setAdd_def Let_def split: prod.splits)
  then show ?thesis by simp
qed

lemma countWordTypesStep_unknowns:
  assumes "\<forall>w \<in> set ws. length (normalizeHebrew w) > 0"
  shows "unknownCount (snd (fold (countWordTypesStep m l) ws s))
     = unknownCount (snd s)
       + card {n \<in> normalizeHebrew ` set ws - set (fst s). getWordKnownType n m l = Unknown}"
proof -
  have "unknownCount (snd (fold (countWordTypesStep m l) ws s))
          = unknownCount (snd s)
            + card {n \<in> normalizeHebrew ` set ws - set (fst s). getWordKnownType n m l = Unknown}
        \<and> set (fst (fold (countWordTypesStep m l) ws s)) = set (fst s) \<union> normalizeHebrew ` set ws"
    using assms
    by (intro fold_seen_count)
       (auto simp: countWordTypesStep_def setAdd_def Let_def split: prod.splits)
  then show ?thesis by simp
qed

lemma countWordTypesStep_potentials:
  assumes "\<forall>w \<in> set ws. length (normalizeHebrew w) > 0"
  shows "potentiallyKnownCount (snd (fold (countWordTypesStep m l) ws s))
     = potentiallyKnownCount (snd s)
       + card {n \<in> normalizeHebrew ` set ws - set (fst s).
                 getWordKnownType n m l = PotentiallyKnown}"
proof -
  have "potentiallyKnownCount (snd (fold (countWordTypesStep m l) ws s))
          = potentiallyKnownCount (snd s)
            + card {n \<in> normalizeHebrew ` set ws - set (fst s).
                      getWordKnownType n m l = PotentiallyKnown}
        \<and> set (fst (fold (countWordTypesStep m l) ws s)) = set (fst s) \<union> normalizeHebrew ` set ws"
    using assms
    by (intro fold_seen_count)
       (auto simp: countWordTypesStep_def setAdd_def Let_def split: prod.splits)
  then show ?thesis by simp
qed

lemma countUnknownWordsStep_count:
  assumes "\<forall>w \<in> set ws. length (normalizeHebrew w) > 0"
  shows "snd (fold (countUnknownWordsStep m l) ws s)
     = snd s
       + card {n \<in> normalizeHebrew ` set ws - set (fst s). getWordKnownType n m l \<noteq> Known}"
proof -
  have "snd (fold (countUnknownWordsStep m l) ws s)
          = snd s
            + card {n \<in> normalizeHebrew ` set ws - set (fst s). getWordKnownType n m l \<noteq> Known}
        \<and> set (fst (fold (countUnknownWordsStep m l) ws s)) = set (fst s) \<union> normalizeHebrew ` set ws"
    using assms
    by (intro fold_seen_count)
       (auto simp: countUnknownWordsStep_def isWordKnown_def setAdd_def Let_def split: prod.splits)
  then show ?thesis by simp
qed

lemma countWordTypes_tokens:
  "unknownCount (countWordTypes (hebrewTokens s) m l) = typeCount Unknown s m l"
  "potentiallyKnownCount (countWordTypes (hebrewTokens s) m l) = typeCount PotentiallyKnown s m l"
  using hebrewTokens_nonempty [of _ s]
  by (simp_all add: countWordTypes_def countWordTypesStep_unknowns countWordTypesStep_potentials
      typeCount_card)

lemma getWordKnownType_range:
  "getWordKnownType w m l = Known \<or> getWordKnownType w m l = PotentiallyKnown
     \<or> getWordKnownType w m l = Unknown"
  using afterVav_cases [of prefixes w m l] by (auto simp: getWordKnownType_def Let_def)

text \<open>
  \<open>countUnknownWords\<close> counts the words that are not \<open>known\<close>: the \<open>unknown\<close> ones and
  the \<open>potentially-known\<close> ones.
\<close>

lemma countUnknownWords_tokens:
  "countUnknownWords (hebrewTokens s) m l
     = typeCount Unknown s m l + typeCount PotentiallyKnown s m l"
proof -
  let ?N = "normalizeHebrew ` set (hebrewTokens s)"
  let ?U = "{n \<in> ?N. getWordKnownType n m l = Unknown}"
  let ?P = "{n \<in> ?N. getWordKnownType n m l = PotentiallyKnown}"
  have "countUnknownWords (hebrewTokens s) m l = card {n \<in> ?N. getWordKnownType n m l \<noteq> Known}"
    using hebrewTokens_nonempty [of _ s]
    by (simp add: countUnknownWords_def countUnknownWordsStep_count)
  moreover have "{n \<in> ?N. getWordKnownType n m l \<noteq> Known} = ?U \<union> ?P"
    using getWordKnownType_range [of _ m l] by auto
  moreover have "card (?U \<union> ?P) = card ?U + card ?P"
    by (rule card_Un_disjoint) auto
  ultimately show ?thesis
    by (simp add: typeCount_card)
qed

section \<open>Sentence classification over the counts\<close>

lemma sentenceOfMatch_Some:
  assumes "length (hebrewTokens s) \<ge> 3"
  shows "\<exists>r. sentenceOfMatch m l s i k = Some r
           \<and> unknownCount r = typeCount Unknown s m l
           \<and> potentiallyKnownCount r = typeCount PotentiallyKnown s m l"
proof -
  obtain seen u p ul where f:
    "fold (sentenceWordStep m l) (hebrewTokens s) ([], 0, 0, []) = (seen, u, p, ul)"
    by (cases "fold (sentenceWordStep m l) (hebrewTokens s) ([], 0, 0, [])") auto
  have u: "u = typeCount Unknown s m l"
    using sentenceWordStep_unknowns [of m l "hebrewTokens s" "([], 0, 0, [])"] f
    by (simp add: typeCount_card)
  have p: "p = typeCount PotentiallyKnown s m l"
    using sentenceWordStep_potentials [of m l "hebrewTokens s" "([], 0, 0, [])"] f
    by (simp add: typeCount_card)
  have ne: "s \<noteq> []"
    using assms by (auto simp: hebrewTokens_def)
  show ?thesis
    using assms ne f u p
    by (auto simp: sentenceOfMatch_def extractHebrewWords_tokens MIN_SENTENCE_WORDS_def Let_def)
qed

text \<open>
  The sentence highlighter and \<open>calculateComprehensionStats\<close> follow the rule of the
  specification. For a sentence with at least three extracted tokens the highlighter
  builds a sentence object, \<open>isI1Sentence\<close> holds of it exactly when one unique
  normalized token is \<open>unknown\<close> and none is \<open>potentially-known\<close>, and
  \<open>isPotentiallyI1Sentence\<close> exactly when one is \<open>potentially-known\<close> and at most one is
  \<open>unknown\<close>; the statistics add one to \<open>i1SentenceCount\<close> and to
  \<open>potentiallyI1SentenceCount\<close> under the same conditions.
\<close>

lemma highlighter_and_stats_follow_rule:
  assumes "length (hebrewTokens s) \<ge> 3"
  shows "(\<exists>r. sentenceOfMatch m l s i k = Some r
            \<and> (isI1Sentence r \<longleftrightarrow>
                 typeCount Unknown s m l = 1 \<and> typeCount PotentiallyKnown s m l = 0)
            \<and> (isPotentiallyI1Sentence r \<longleftrightarrow>
                 typeCount PotentiallyKnown s m l = 1
                   \<and> (typeCount Unknown s m l = 0 \<or> typeCount Unknown s m l = 1)))
       \<and> fst (snd (subtitleStep m l s (uniq, i1, pi1)))
           = i1 + (if typeCount Unknown s m l = 1 \<and> typeCount PotentiallyKnown s m l = 0
                   then 1 else 0)
       \<and> snd (snd (subtitleStep m l s (uniq, i1, pi1)))
           = pi1 + (if typeCount PotentiallyKnown s m l = 1
                       \<and> (typeCount Unknown s m l = 0 \<or> typeCount Unknown s m l = 1)
                    then 1 else 0)"
proof -
  obtain r where r: "sentenceOfMatch m l s i k = Some r"
      "unknownCount r = typeCount Unknown s m l"
      "potentiallyKnownCount r = typeCount PotentiallyKnown s m l"
    using sentenceOfMatch_Some [OF assms] by blast
  have a: "\<exists>r. sentenceOfMatch m l s i k = Some r
            \<and> (isI1Sentence r \<longleftrightarrow>
                 typeCount Unknown s m l = 1 \<and> typeCount PotentiallyKnown s m l = 0)
            \<and> (isPotentiallyI1Sentence r \<longleftrightarrow>
                 typeCount PotentiallyKnown s m l = 1
                   \<and> (typeCount Unknown s m l = 0 \<or> typeCount Unknown s m l = 1))"
    using r by (simp add: isI1Sentence_def isPotentiallyI1Sentence_def)
  have b: "fst (snd (subtitleStep m l s (uniq, i1, pi1)))
           = i1 + (if typeCount Unknown s m l = 1 \<and> typeCount PotentiallyKnown s m l = 0
                   then 1 else 0)"
    using assms
    by (simp add: subtitleStep_def extractHebrewWords_tokens countWordTypes_tokens Let_def)
  have c: "snd (snd (subtitleStep m l s (uniq, i1, pi1)))
           = pi1 + (if typeCount PotentiallyKnown s m l = 1
                       \<and> (typeCount Unknown s m l = 0 \<or> typeCount Unknown s m l = 1)
                    then 1 else 0)"
    using assms
    by (simp add: subtitleStep_def extractHebrewWords_tokens countWordTypes_tokens Let_def)
  show ?thesis
    using a b c by blast
qed

text \<open>
  \<open>checkIfPotentiallyI1Sentence\<close> follows the rule too. \<open>checkIfI1Sentence\<close> does not: it
  holds exactly when one unique normalized token is not \<open>known\<close>, be it \<open>unknown\<close> or
  \<open>potentially-known\<close>.
\<close>

lemma checkIfPotentiallyI1Sentence_iff:
  assumes "length (hebrewTokens s) \<ge> 3"
  shows "checkIfPotentiallyI1Sentence s m l \<longleftrightarrow>
           typeCount PotentiallyKnown s m l = 1
             \<and> (typeCount Unknown s m l = 0 \<or> typeCount Unknown s m l = 1)"
proof -
  have "s \<noteq> []"
    using assms by (auto simp: hebrewTokens_def)
  then show ?thesis
    using assms countWordTypes_tokens [of s m l]
    by (simp add: checkIfPotentiallyI1Sentence_def hebrewTokens_def Let_def)
qed

lemma checkIfI1Sentence_iff:
  assumes "length (hebrewTokens s) \<ge> 3"
  shows "checkIfI1Sentence s m l \<longleftrightarrow>
           typeCount Unknown s m l + typeCount PotentiallyKnown s m l = 1"
proof -
  have "s \<noteq> []"
    using assms by (auto simp: hebrewTokens_def)
  then show ?thesis
    using assms countUnknownWords_tokens [of s m l]
    by (simp add: checkIfI1Sentence_def hebrewTokens_def Let_def)
qed

text \<open>
  Claim C1: for every sentence with at least three extracted Hebrew tokens, the sentence
  classifier answers i+1 exactly when the unknown count is 1 and the potentially-known
  count is 0, the counts being taken over the unique normalized tokens. The subtitle
  readers classify with \<open>checkIfI1Sentence\<close>, and there the claim fails. The sentence
  shin-lamed-vav-mem, ayin-vav-lamed-mem, bet-bet-yod-tav, with the first two words and
  bet-yod-tav in the mature array, has three tokens, none \<open>unknown\<close> and one
  \<open>potentially-known\<close>: \<open>checkIfI1Sentence\<close> answers true, where the sentence object of
  the highlighter is not i+1 and the statistics count the sentence as potentially i+1.
\<close>

theorem C1_checkIfI1Sentence_counts_potentially_known:
  "length (hebrewTokens
       [0x05E9, 0x05DC, 0x05D5, 0x05DD, 0x20, 0x05E2, 0x05D5, 0x05DC, 0x05DD, 0x20,
        0x05D1, 0x05D1, 0x05D9, 0x05EA]) = 3
   \<and> typeCount Unknown
       [0x05E9, 0x05DC, 0x05D5, 0x05DD, 0x20, 0x05E2, 0x05D5, 0x05DC, 0x05DD, 0x20,
        0x05D1, 0x05D1, 0x05D9, 0x05EA]
       [[0x05E9, 0x05DC, 0x05D5, 0x05DD], [0x05E2, 0x05D5, 0x05DC, 0x05DD], [0x05D1, 0x05D9, 0x05EA]]
       [] = 0
   \<and> typeCount PotentiallyKnown
       [0x05E9, 0x05DC, 0x05D5, 0x05DD, 0x20, 0x05E2, 0x05D5, 0x05DC, 0x05DD, 0x20,
        0x05D1, 0x05D1, 0x05D9, 0x05EA]
       [[0x05E9, 0x05DC, 0x05D5, 0x05DD], [0x05E2, 0x05D5, 0x05DC, 0x05DD], [0x05D1, 0x05D9, 0x05EA]]
       [] = 1
   \<and> checkIfI1Sentence
       [0x05E9, 0x05DC, 0x05D5, 0x05DD, 0x20, 0x05E2, 0x05D5, 0x05DC, 0x05DD, 0x20,
        0x05D1, 0x05D1, 0x05D9, 0x05EA]
       [[0x05E9, 0x05DC, 0x05D5, 0x05DD], [0x05E2, 0x05D5, 0x05DC, 0x05DD], [0x05D1, 0x05D9, 0x05EA]]
       []
   \<and> checkIfPotentiallyI1Sentence
       [0x05E9, 0x05DC, 0x05D5, 0x05DD, 0x20, 0x05E2, 0x05D5, 0x05DC, 0x05DD, 0x20,
        0x05D1, 0x05D1, 0x05D9, 0x05EA]
       [[0x05E9, 0x05DC, 0x05D5, 0x05DD], [0x05E2, 0x05D5, 0x05DC, 0x05DD], [0x05D1, 0x05D9, 0x05EA]]
       []
   \<and> snd (subtitleStep
       [[0x05E9, 0x05DC, 0x05D5, 0x05DD], [0x05E2, 0x05D5, 0x05DC, 0x05DD], [0x05D1, 0x05D9, 0x05EA]]
       []
       [0x05E9, 0x05DC, 0x05D5, 0x05DD, 0x20, 0x05E2, 0x05D5, 0x05DC, 0x05DD, 0x20,
        0x05D1, 0x05D1, 0x05D9, 0x05EA]
       ([], 0, 0)) = (0, 1)
   \<and> map_option isI1Sentence
       (sentenceOfMatch
          [[0x05E9, 0x05DC, 0x05D5, 0x05DD], [0x05E2, 0x05D5, 0x05DC, 0x05DD], [0x05D1, 0x05D9, 0x05EA]]
          []
          [0x05E9, 0x05DC, 0x05D5, 0x05DD, 0x20, 0x05E2, 0x05D5, 0x05DC, 0x05DD, 0x20,
           0x05D1, 0x05D1, 0x05D9, 0x05EA]
          0 14) = Some False"
  by code_simp

text \<open>
  Claim C6. From a text unit with fewer than three extracted Hebrew tokens (of
  normalized length above one) no classifier answers i+1 or potentially i+1, whatever
  the vocabulary: \<open>checkIfI1Sentence\<close> and \<open>checkIfPotentiallyI1Sentence\<close> are false, the
  highlighter builds no sentence object for it, and \<open>calculateComprehensionStats\<close> adds
  to neither of its sentence counts.
\<close>

theorem C6_short_sentences:
  assumes "length (hebrewTokens s) < 3"
  shows "\<not> checkIfI1Sentence s m l
       \<and> \<not> checkIfPotentiallyI1Sentence s m l
       \<and> sentenceOfMatch m l s i k = None
       \<and> snd (subtitleStep m l s (uniq, i1, pi1)) = (i1, pi1)"
proof -
  have "\<not> checkIfI1Sentence s m l"
    using assms by (simp add: checkIfI1Sentence_def hebrewTokens_def Let_def)
  moreover have "\<not> checkIfPotentiallyI1Sentence s m l"
    using assms by (simp add: checkIfPotentiallyI1Sentence_def hebrewTokens_def Let_def)
  moreover have "sentenceOfMatch m l s i k = None"
    using assms
    by (simp add: sentenceOfMatch_def extractHebrewWords_tokens MIN_SENTENCE_WORDS_def Let_def)
  moreover have "snd (subtitleStep m l s (uniq, i1, pi1)) = (i1, pi1)"
    using assms by (simp add: subtitleStep_def extractHebrewWords_tokens Let_def)
  ultimately show ?thesis by blast
qed

text \<open>Two tokens, both unknown to an empty vocabulary: yod-pe-he, mem-alef-vav-dalet.\<close>

theorem C6_short_sentences_witness:
  "length (hebrewTokens [0x05D9, 0x05E4, 0x05D4, 0x20, 0x05DE, 0x05D0, 0x05D5, 0x05D3]) = 2
   \<and> typeCount Unknown [0x05D9, 0x05E4, 0x05D4, 0x20, 0x05DE, 0x05D0, 0x05D5, 0x05D3] [] [] = 2
   \<and> \<not> checkIfI1Sentence [0x05D9, 0x05E4, 0x05D4, 0x20, 0x05DE, 0x05D0, 0x05D5, 0x05D3] [] []
   \<and> \<not> checkIfPotentiallyI1Sentence
          [0x05D9, 0x05E4, 0x05D4, 0x20, 0x05DE, 0x05D0, 0x05D5, 0x05D3] [] []
   \<and> sentenceOfMatch [] [] [0x05D9, 0x05E4, 0x05D4, 0x20, 0x05DE, 0x05D0, 0x05D5, 0x05D3] 0 8
       = None"
proof -
  have n: "length (hebrewTokens [0x05D9, 0x05E4, 0x05D4, 0x20, 0x05DE, 0x05D0, 0x05D5, 0x05D3]) = 2"
    by code_simp
  have u: "typeCount Unknown [0x05D9, 0x05E4, 0x05D4, 0x20, 0x05DE, 0x05D0, 0x05D5, 0x05D3] [] [] = 2"
    by code_simp
  have h: "length (hebrewTokens [0x05D9, 0x05E4, 0x05D4, 0x20, 0x05DE, 0x05D0, 0x05D5, 0x05D3]) < 3"
    using n by simp
  show ?thesis
    using C6_short_sentences [OF h, of "[]" "[]" 0 8] n u by simp
qed

section \<open>Comprehension statistics\<close>

subsection \<open>The rounding of Numbers\<close>

text \<open>
  \<open>binaryExponent\<close> is the binary exponent of a positive rational, and \<open>toDouble\<close>
  returns a value with a significand of 53 bits at that exponent, at most half a unit in
  the last place away from its argument; a tie goes to the even significand.
\<close>

lemma pow2_power_int: "pow2 e = power_int 2 e"
  by (simp add: pow2_def power_int_def field_simps)

lemma pow2_pos: "0 < pow2 e"
  by (simp add: pow2_power_int)

lemma pow2_add: "pow2 (a + b) = pow2 a * pow2 b"
  by (simp add: pow2_power_int power_int_add)

lemma pow2_diff: "pow2 (a - b) = pow2 a / pow2 b"
  by (simp add: pow2_power_int power_int_diff)

lemma pow2_nat: "0 \<le> e \<Longrightarrow> pow2 e = 2 ^ nat e"
  by (simp add: pow2_def)

lemma pow2_Suc: "pow2 (e + 1) = 2 * pow2 e"
  by (simp add: pow2_power_int power_int_add)

lemma bitlen_rat_bounds:
  assumes "0 < a"
  shows "pow2 (bitlen a - 1) \<le> of_int a" and "(of_int a :: rat) < pow2 (bitlen a)"
proof -
  have b: "2 ^ nat (bitlen a - 1) \<le> a" "a < 2 ^ nat (bitlen a)"
    using bitlen_bounds [OF assms] by simp_all
  have pos: "1 \<le> bitlen a"
    using assms bitlen_nonneg [of a] bitlen_eq_zero_iff [of a] by linarith
  have "(of_int (2 ^ nat (bitlen a - 1)) :: rat) \<le> of_int a"
    using b(1) by (simp only: of_int_le_iff)
  then show "pow2 (bitlen a - 1) \<le> of_int a"
    using pos by (simp add: pow2_nat)
  have "(of_int a :: rat) < of_int (2 ^ nat (bitlen a))"
    using b(2) by (simp only: of_int_less_iff)
  then show "(of_int a :: rat) < pow2 (bitlen a)"
    using pos by (simp add: pow2_nat)
qed

lemma binaryExponent_bounds:
  assumes "0 < q"
  shows "pow2 (binaryExponent q) \<le> q \<and> q < pow2 (binaryExponent q + 1)"
proof -
  obtain a b where ab: "quotient_of q = (a, b)"
    by (cases "quotient_of q") auto
  have bpos: "0 < b"
    using ab by (rule quotient_of_denom_pos)
  have q: "q = of_int a / of_int b"
    using ab by (rule quotient_of_div)
  have apos: "0 < a"
    using assms bpos q by (simp add: zero_less_divide_iff)
  let ?d = "bitlen a - bitlen b"
  have "q < pow2 (bitlen a) / pow2 (bitlen b - 1)"
    unfolding q
    using bitlen_rat_bounds [OF apos] bitlen_rat_bounds [OF bpos] apos bpos pow2_pos
    by (intro frac_less) (auto intro: less_imp_le)
  then have up: "q < pow2 (?d + 1)"
    by (simp add: pow2_diff [symmetric] algebra_simps)
  have "pow2 (bitlen a - 1) / pow2 (bitlen b) < q"
    unfolding q
    using bitlen_rat_bounds [OF apos] bitlen_rat_bounds [OF bpos] apos bpos pow2_pos
    by (intro frac_less2) (auto intro: less_imp_le)
  then have lo: "pow2 (?d - 1) < q"
    by (simp add: pow2_diff [symmetric] algebra_simps)
  show ?thesis
  proof (cases "pow2 ?d \<le> q")
    case True
    then show ?thesis
      using up ab by (simp add: binaryExponent_def)
  next
    case False
    then show ?thesis
      using lo ab by (simp add: binaryExponent_def less_imp_le)
  qed
qed


lemma roundHalfEven_near: "\<bar>of_int (roundHalfEven x) - x\<bar> \<le> 1 / 2"
proof -
  have "of_int \<lfloor>x\<rfloor> \<le> x" "x < of_int \<lfloor>x\<rfloor> + 1"
    using floor_correct [of x] by simp_all
  then show ?thesis
    by (auto simp: roundHalfEven_def Let_def)
qed

lemma roundHalfEven_tie:
  "x - of_int \<lfloor>x\<rfloor> = 1 / 2 \<Longrightarrow> even (roundHalfEven x)"
  by (simp add: roundHalfEven_def Let_def)

lemma roundHalfEven_mono_int:
  assumes "of_int n \<le> x" and "x \<le> of_int k"
  shows "n \<le> roundHalfEven x \<and> roundHalfEven x \<le> k"
proof -
  have f: "n \<le> \<lfloor>x\<rfloor>"
    using assms(1) by (simp add: le_floor_iff)
  have c: "\<lfloor>x\<rfloor> \<le> k"
    using assms(2) by (simp add: floor_le_iff)
  have "x - of_int \<lfloor>x\<rfloor> > 0 \<Longrightarrow> \<lfloor>x\<rfloor> + 1 \<le> k"
  proof -
    assume "x - of_int \<lfloor>x\<rfloor> > 0"
    then have "of_int \<lfloor>x\<rfloor> < (of_int k :: rat)"
      using assms(2) by linarith
    then have "\<lfloor>x\<rfloor> < k"
      by (simp only: of_int_less_iff)
    then show ?thesis by simp
  qed
  then show ?thesis
    using f c by (auto simp: roundHalfEven_def Let_def)
qed

lemma toDouble_nearest:
  assumes "0 < q"
  shows "\<exists>M. toDouble q = of_int M * pow2 (binaryExponent q - 52)
              \<and> 2 ^ 52 \<le> M \<and> M \<le> 2 ^ 53
              \<and> \<bar>toDouble q - q\<bar> \<le> pow2 (binaryExponent q - 52) / 2"
proof -
  let ?e = "binaryExponent q"
  let ?u = "pow2 (?e - 52)"
  let ?M = "roundHalfEven (q / ?u)"
  have upos: "0 < ?u" by (rule pow2_pos)
  have td: "toDouble q = of_int ?M * ?u"
    using assms by (simp add: toDouble_def Let_def)
  have b: "pow2 ?e \<le> q" "q < pow2 (?e + 1)"
    using binaryExponent_bounds [OF assms] by simp_all
  have p52: "pow2 52 = 2 ^ 52" "pow2 53 = 2 ^ 53"
    by (simp_all add: pow2_def)
  have e1: "pow2 ?e = 2 ^ 52 * ?u"
    using pow2_add [of 52 "?e - 52"] p52 by simp
  have e2: "pow2 (?e + 1) = 2 ^ 53 * ?u"
    using pow2_add [of 53 "?e - 52"] p52 by (simp add: add.commute)
  have lo: "of_int (2 ^ 52) \<le> q / ?u"
    using b(1) e1 upos by (simp add: le_divide_eq)
  have hi: "q / ?u \<le> of_int (2 ^ 53)"
    using b(2) e2 upos by (simp add: divide_le_eq)
  have M: "2 ^ 52 \<le> ?M" "?M \<le> 2 ^ 53"
    using roundHalfEven_mono_int [OF lo hi] by simp_all
  have "\<bar>of_int ?M - q / ?u\<bar> \<le> 1 / 2"
    by (rule roundHalfEven_near)
  then have "\<bar>of_int ?M - q / ?u\<bar> * ?u \<le> 1 / 2 * ?u"
    using upos by (intro mult_right_mono) simp_all
  moreover have "\<bar>of_int ?M - q / ?u\<bar> * ?u = \<bar>of_int ?M * ?u - q\<bar>"
  proof -
    have "(of_int ?M - q / ?u) * ?u = of_int ?M * ?u - q"
      using upos by (simp add: field_simps)
    moreover have "\<bar>of_int ?M - q / ?u\<bar> * ?u = \<bar>(of_int ?M - q / ?u) * ?u\<bar>"
      using upos by (simp add: abs_mult)
    ultimately show ?thesis by simp
  qed
  ultimately have err: "\<bar>toDouble q - q\<bar> \<le> ?u / 2"
    by (simp add: td)
  show ?thesis
    using td M err by blast
qed

subsection \<open>The statistics\<close>













text \<open>
  The quotient and the product are rounded to Numbers before \<open>Math.round\<close> sees them: with
  23 known words of 40 the product is just below 57.5 and the percentage is 57, where
  rounding the exact value 57.5 would give 58.
\<close>

lemma percentageOf_23_40:
  "percentageOf 23 40 = 57"
  "\<lfloor>(23 / 40 * 100 + 1 / 2 :: rat)\<rfloor> = 58"
  by code_simp+

text \<open>
  Claim C8. When the vocabulary fetch fails, that is when the awaited message rejects,
  \<open>calculateComprehensionStats\<close> returns the zeroed statistics object whatever the
  subtitles are; the error does not leave the function. The same holds when the message
  resolves to \<open>undefined\<close> and reading its property throws.
\<close>

theorem C8_fetch_failure_zero:
  "calculateComprehensionStats (Inl e) subtitles = zeroStats
   \<and> calculateComprehensionStats (Inr None) subtitles = zeroStats"
  by (simp add: calculateComprehensionStats_def tryComprehensionStats_def)

theorem C8_fetch_failure_zero_witness:
  "calculateComprehensionStats (Inl Rejection) [[0x05E9, 0x05DC, 0x05D5, 0x05DD]]
     = \<lparr> total = 0, known = 0, potentiallyKnown = 0, percentage = 0,
         i1Sentences = 0, potentiallyI1Sentences = 0 \<rparr>"
  using C8_fetch_failure_zero [of Rejection "[[0x05E9, 0x05DC, 0x05D5, 0x05DD]]"]
  by (simp add: zeroStats_def)

end
